theory Spec2Isabelle
  imports Complex_Main
begin

section \<open>The hello-world skill of helloaman/lambda/lambda_function.py\<close>

text \<open>
  The skill is a list of request handlers registered with a skill builder. Each handler
  is a class with a predicate \<open>can_handle\<close> and an action \<open>handle\<close>; the action
  fills the response builder of its handler input and returns the finished response, or
  raises. Handlers, their texts, the tokens and the registration order are translated
  from the Python source. The helpers the source imports from the ASK SDK (request
  predicates, the response builder, the dispatcher behind \<open>lambda_handler\<close>) are not
  part of the source file; they are modelled from the specification and marked so.
\<close>

subsection \<open>Exceptions\<close>

text \<open>
  The failures an action of this file can raise: \<open>TypeError\<close> (an operator applied
  to \<open>None\<close>, or \<open>get_intent_name\<close> on a request that is no intent request) and
  the failures of reading a layout document (\<open>open\<close> and \<open>json.load\<close>).
\<close>

datatype exn = TypeError | OSError | JSONDecodeError

subsection \<open>The request envelope\<close>

text \<open>
  The request of an envelope. An intent request carries the name of its intent; an APL
  user event carries its \<open>source\<close> dictionary, which the source file reads with
  \<open>source.get("id")\<close>. The kinds are the four of the event model, those the
  handlers test for; \<open>object_type\<close> is the type string of each.
\<close>

datatype Request =
    LaunchRequest
  | IntentRequest string
  | UserEvent (source: "string \<rightharpoonup> string")
  | SessionEndedRequest

fun object_type :: "Request \<Rightarrow> string" where
  "object_type LaunchRequest = ''LaunchRequest''"
| "object_type (IntentRequest n) = ''IntentRequest''"
| "object_type (UserEvent s) = ''Alexa.Presentation.APL.UserEvent''"
| "object_type SessionEndedRequest = ''SessionEndedRequest''"

text \<open>
  \<open>context.system.device.supported_interfaces\<close>: the APL interface is present
  exactly on a device with a screen. The handlers only test it against \<open>None\<close>.
\<close>

datatype AlexaPresentationAplInterface = AlexaPresentationAplInterface

record SupportedInterfaces =
  alexa_presentation_apl :: "AlexaPresentationAplInterface option"

text \<open>
  \<open>context.alexa_presentation_apl\<close>: the state of the document the device
  displays, with the token it was rendered under.
\<close>

record RenderedDocumentState =
  token :: "string option"

record RequestEnvelope =
  request :: Request
  supported_interfaces :: SupportedInterfaces
  context_alexa_presentation_apl :: "RenderedDocumentState option"

subsection \<open>Responses\<close>

datatype AnimatedProperty = AnimatedOpacityProperty (to_value: real)

datatype Command =
  AnimateItemCommand (component_id: string) (duration: int) (value_list: "AnimatedProperty list")

datatype 'doc Directive =
    RenderDocumentDirective (directive_token: string) (document: 'doc)
  | ExecuteCommandsDirective (directive_token: string) (commands: "Command list")

datatype Card = SimpleCard (title: string) (content: string)

record 'doc Response =
  speech :: "string option"
  reprompt :: "string option"
  card :: "Card option"
  directives :: "'doc Directive list"
  shouldEndSession :: bool

text \<open>
  Modelled from the spec: the response builder (\<open>ResponseFactory\<close> of the ASK SDK,
  reached as \<open>handler_input.response_builder\<close>) is not in the source file. The
  specification, sections 3 and 4.3: it accumulates speech, reprompt, card and
  directives (\<open>speak\<close>, \<open>ask\<close>, \<open>set_card\<close>, \<open>add_directive\<close>) and finalizes them
  into one response, whose \<open>shouldEndSession\<close> is derived: true unless a reprompt is set.
\<close>

record 'doc ResponseFactory =
  b_speech :: "string option"
  b_reprompt :: "string option"
  b_card :: "Card option"
  b_directives :: "'doc Directive list"

definition ResponseFactory_init :: "'doc ResponseFactory" where
  "ResponseFactory_init =
     \<lparr>b_speech = None, b_reprompt = None, b_card = None, b_directives = []\<rparr>"

definition speak :: "string \<Rightarrow> 'doc ResponseFactory \<Rightarrow> 'doc ResponseFactory" where
  "speak s b = b\<lparr>b_speech := Some s\<rparr>"

definition ask :: "string \<Rightarrow> 'doc ResponseFactory \<Rightarrow> 'doc ResponseFactory" where
  "ask s b = b\<lparr>b_reprompt := Some s\<rparr>"

definition set_card :: "Card \<Rightarrow> 'doc ResponseFactory \<Rightarrow> 'doc ResponseFactory" where
  "set_card c b = b\<lparr>b_card := Some c\<rparr>"

definition add_directive :: "'doc Directive \<Rightarrow> 'doc ResponseFactory \<Rightarrow> 'doc ResponseFactory" where
  "add_directive d b = b\<lparr>b_directives := b_directives b @ [d]\<rparr>"

definition response :: "'doc ResponseFactory \<Rightarrow> 'doc Response" where
  "response b =
     \<lparr>speech = b_speech b, reprompt = b_reprompt b, card = b_card b,
      directives = b_directives b, shouldEndSession = (b_reprompt b = None)\<rparr>"

subsection \<open>Handler input and the imported request helpers\<close>

record 'doc HandlerInput =
  request_envelope :: RequestEnvelope
  response_builder :: "'doc ResponseFactory"

text \<open>
  Modelled from the spec: \<open>is_request_type\<close>, \<open>is_intent_name\<close>,
  \<open>get_intent_name\<close> and \<open>get_supported_interfaces\<close> of \<open>ask_sdk_core.utils\<close> are
  not in the source file. The specification, sections 3 and 4.1: a handler matches on
  the kind of the event, and for an intent request on its intent name (present only for
  an intent request); the device capabilities say whether a screen is supported.
\<close>

definition is_request_type :: "string \<Rightarrow> 'doc HandlerInput \<Rightarrow> bool" where
  "is_request_type t handler_input =
     (object_type (request (request_envelope handler_input)) = t)"

definition is_intent_name :: "string \<Rightarrow> 'doc HandlerInput \<Rightarrow> bool" where
  "is_intent_name name handler_input =
     (case request (request_envelope handler_input) of
        IntentRequest n \<Rightarrow> n = name
      | _ \<Rightarrow> False)"

definition get_intent_name :: "'doc HandlerInput \<Rightarrow> exn + string" where
  "get_intent_name handler_input =
     (case request (request_envelope handler_input) of
        IntentRequest n \<Rightarrow> Inr n
      | _ \<Rightarrow> Inl TypeError)"

definition get_supported_interfaces :: "'doc HandlerInput \<Rightarrow> SupportedInterfaces" where
  "get_supported_interfaces handler_input =
     supported_interfaces (request_envelope handler_input)"

subsection \<open>Module constants and the document loader\<close>

definition hello_world_doc_path :: string where
  "hello_world_doc_path = ''helloworldDocument.json''"

definition hello_world_button_doc_path :: string where
  "hello_world_button_doc_path = ''helloworldWithButtonDocument.json''"

definition HELLO_WORLD_TOKEN :: string where
  "HELLO_WORLD_TOKEN = ''helloworldToken''"

definition HELLO_WORLD_WITH_BUTTON_TOKEN :: string where
  "HELLO_WORLD_WITH_BUTTON_TOKEN = ''helloworldWithButtonToken''"

text \<open>
  The two layout documents are files beside the source file. The file system is a
  parameter: for each path, what \<open>open\<close> followed by \<open>json.load\<close> gives there, the
  parsed document or the failure raised. No handler looks inside a document, so its
  type is left open (\<open>'doc\<close>). The source's name is \<open>_load_apl_document\<close>.
\<close>

type_synonym 'doc FileSystem = "string \<Rightarrow> exn + 'doc"

definition load_apl_document :: "'doc FileSystem \<Rightarrow> string \<Rightarrow> exn + 'doc" where
  "load_apl_document fs file_path = fs file_path"

text \<open>
  \<open>speak_output += s\<close> on a variable that holds \<open>None\<close> or a string: Python raises
  \<open>TypeError\<close> when the left operand is \<open>None\<close>.
\<close>

fun str_iadd :: "string option \<Rightarrow> string \<Rightarrow> exn + string" where
  "str_iadd None s = Inl TypeError"
| "str_iadd (Some t) s = Inr (t @ s)"


subsection \<open>The request handlers\<close>

text \<open>
  One pair of definitions for each handler class, in the order of the source file. An
  action takes the handler input (and the file system where it loads a document) and
  returns the response it builds, or \<open>Inl\<close> the failure it raises. No action changes
  the response builder before the point where it can raise.
\<close>

paragraph \<open>StartOverIntentHandler\<close>

definition StartOverIntentHandler_can_handle :: "'doc HandlerInput \<Rightarrow> bool" where
  "StartOverIntentHandler_can_handle handler_input =
     is_intent_name ''AMAZON.StartOverIntent'' handler_input"

definition StartOverIntentHandler_handle :: "'doc HandlerInput \<Rightarrow> exn + 'doc Response" where
  "StartOverIntentHandler_handle handler_input =
     (let speak_output = (None :: string option);
          response_builder = response_builder handler_input
      in
        if alexa_presentation_apl (get_supported_interfaces handler_input) \<noteq> None then
          (let context_apl = context_alexa_presentation_apl (request_envelope handler_input)
           in
             if (case context_apl of
                   None \<Rightarrow> False
                 | Some c \<Rightarrow> token c = Some HELLO_WORLD_WITH_BUTTON_TOKEN) then
               (let speak_output = ''OK, I'm going to try to bring that text '' @
                                   ''back into view.'';
                    animate_item_command =
                      AnimateItemCommand ''helloTextComponent'' 3000
                        [AnimatedOpacityProperty 1.0];
                    response_builder =
                      add_directive
                        (ExecuteCommandsDirective HELLO_WORLD_WITH_BUTTON_TOKEN
                           [animate_item_command])
                        response_builder
                in Inr (response (speak speak_output response_builder)))
             else
               (let speak_output = ''Hmm, there isn't anything for me to reset. '' @
                                   ''Try invoking the 'hello world with button '' @
                                   ''intent', then click the button and see what '' @
                                   ''happens!''
                in Inr (response (speak speak_output response_builder))))
        else
          (case str_iadd speak_output
                  (''Hello, this example would be more interesting on '' @
                   ''a device with a screen. Try it on an Echo Show, '' @
                   ''Echo Spot or a Fire TV device.'') of
             Inl e \<Rightarrow> Inl e
           | Inr speak_output \<Rightarrow> Inr (response (speak speak_output response_builder))))"

paragraph \<open>HelloWorldButtonEventHandler\<close>

definition HelloWorldButtonEventHandler_can_handle :: "'doc HandlerInput \<Rightarrow> bool" where
  "HelloWorldButtonEventHandler_can_handle handler_input =
     (if is_request_type ''Alexa.Presentation.APL.UserEvent'' handler_input then
        (let user_event = request (request_envelope handler_input)
         in source user_event ''id'' = Some ''fadeHelloTextButton'')
      else False)"

definition HelloWorldButtonEventHandler_handle :: "'doc HandlerInput \<Rightarrow> exn + 'doc Response" where
  "HelloWorldButtonEventHandler_handle handler_input =
     (let speech_text = ''Thank you for clicking the button! I imagine you '' @
                        ''already noticed that the text faded away. Tell me to '' @
                        ''start over to bring it back!''
      in Inr (response
               (ask (''Tell me to start over if you want me to bring the text back into '' @
                     ''view. Or, you can just say hello again.'')
                  (speak speech_text (response_builder handler_input)))))"

paragraph \<open>HelloWorldWithButtonIntentHandler\<close>

definition HelloWorldWithButtonIntentHandler_can_handle :: "'doc HandlerInput \<Rightarrow> bool" where
  "HelloWorldWithButtonIntentHandler_can_handle handler_input =
     is_intent_name ''HelloWorldWithButtonIntent'' handler_input"

definition HelloWorldWithButtonIntentHandler_handle ::
  "'doc FileSystem \<Rightarrow> 'doc HandlerInput \<Rightarrow> exn + 'doc Response" where
  "HelloWorldWithButtonIntentHandler_handle fs handler_input =
     (let speak_output = ''Hello World!'';
          response_builder = response_builder handler_input
      in
        if alexa_presentation_apl (get_supported_interfaces handler_input) \<noteq> None then
          (case load_apl_document fs hello_world_button_doc_path of
             Inl e \<Rightarrow> Inl e
           | Inr doc \<Rightarrow>
               (let response_builder =
                      add_directive
                        (RenderDocumentDirective HELLO_WORLD_WITH_BUTTON_TOKEN doc)
                        response_builder;
                    speak_output = speak_output @
                      ('' Welcome to Alexa Presentation Language. '' @
                       ''Click the button to see what happens!'')
                in Inr (response (speak speak_output response_builder))))
        else
          (let speak_output = speak_output @
                 ('' This example would be more interesting on a '' @
                  ''device with a screen, such as an Echo Show or '' @
                  ''Fire TV.'')
           in Inr (response (speak speak_output response_builder))))"

paragraph \<open>HelloWorldIntentHandler\<close>

definition HelloWorldIntentHandler_can_handle :: "'doc HandlerInput \<Rightarrow> bool" where
  "HelloWorldIntentHandler_can_handle handler_input =
     is_intent_name ''HelloWorldIntent'' handler_input"

definition HelloWorldIntentHandler_handle ::
  "'doc FileSystem \<Rightarrow> 'doc HandlerInput \<Rightarrow> exn + 'doc Response" where
  "HelloWorldIntentHandler_handle fs handler_input =
     (let speak_output = ''Hello World!'';
          response_builder = response_builder handler_input
      in
        if alexa_presentation_apl (get_supported_interfaces handler_input) \<noteq> None then
          (case load_apl_document fs hello_world_doc_path of
             Inl e \<Rightarrow> Inl e
           | Inr doc \<Rightarrow>
               (let response_builder =
                      add_directive (RenderDocumentDirective HELLO_WORLD_TOKEN doc)
                        response_builder;
                    speak_output = speak_output @
                      ('' You should now also see my greeting on the '' @
                       ''screen.'')
                in Inr (response (speak speak_output response_builder))))
        else
          (let speak_output = speak_output @
                 ('' This example would be more interesting on a '' @
                  ''device with a screen, such as an Echo Show or '' @
                  ''Fire TV.'')
           in Inr (response (speak speak_output response_builder))))"

paragraph \<open>LaunchRequestHandler\<close>

definition LaunchRequestHandler_can_handle :: "'doc HandlerInput \<Rightarrow> bool" where
  "LaunchRequestHandler_can_handle handler_input =
     is_request_type ''LaunchRequest'' handler_input"

definition LaunchRequestHandler_handle :: "'doc HandlerInput \<Rightarrow> exn + 'doc Response" where
  "LaunchRequestHandler_handle handler_input =
     (let speak_output =
            ''Welcome Aman, you can say Hello or Help. Which would you like to try?''
      in Inr (response (ask speak_output (speak speak_output (response_builder handler_input)))))"

paragraph \<open>okIntentHandler\<close>

definition okIntentHandler_can_handle :: "'doc HandlerInput \<Rightarrow> bool" where
  "okIntentHandler_can_handle handler_input = is_intent_name ''okIntent'' handler_input"

definition okIntentHandler_handle :: "'doc HandlerInput \<Rightarrow> exn + 'doc Response" where
  "okIntentHandler_handle handler_input =
     (let speak_output = ''Hello Aman ok!''
      in Inr (response (speak speak_output (response_builder handler_input))))"

paragraph \<open>CardIntentHandler\<close>

definition CardIntentHandler_can_handle :: "'doc HandlerInput \<Rightarrow> bool" where
  "CardIntentHandler_can_handle handler_input = is_intent_name ''CardIntent'' handler_input"

definition CardIntentHandler_handle :: "'doc HandlerInput \<Rightarrow> exn + 'doc Response" where
  "CardIntentHandler_handle handler_input =
     (let speech_text =
            ''This is the text Alexa speaks. Go to the Alexa app to see the card!'';
          card_title = ''This is the Title of the Card'';
          card_text =
            ''This is the card content. This card just has plain text content.'' @
            [CHR 0x0D, CHR 0x0A] @
            ''The content is formated with line breaks to improve readability.''
      in Inr (response
               (set_card (SimpleCard card_title card_text)
                  (speak speech_text (response_builder handler_input)))))"

paragraph \<open>HelpIntentHandler\<close>

definition HelpIntentHandler_can_handle :: "'doc HandlerInput \<Rightarrow> bool" where
  "HelpIntentHandler_can_handle handler_input =
     is_intent_name ''AMAZON.HelpIntent'' handler_input"

definition HelpIntentHandler_handle :: "'doc HandlerInput \<Rightarrow> exn + 'doc Response" where
  "HelpIntentHandler_handle handler_input =
     (let speak_output = ''You can say hello to me! How can I help?''
      in Inr (response (ask speak_output (speak speak_output (response_builder handler_input)))))"

paragraph \<open>CancelOrStopIntentHandler\<close>

definition CancelOrStopIntentHandler_can_handle :: "'doc HandlerInput \<Rightarrow> bool" where
  "CancelOrStopIntentHandler_can_handle handler_input =
     (is_intent_name ''AMAZON.CancelIntent'' handler_input \<or>
      is_intent_name ''AMAZON.StopIntent'' handler_input)"

definition CancelOrStopIntentHandler_handle :: "'doc HandlerInput \<Rightarrow> exn + 'doc Response" where
  "CancelOrStopIntentHandler_handle handler_input =
     (let speak_output = ''Goodbye!''
      in Inr (response (speak speak_output (response_builder handler_input))))"

paragraph \<open>SessionEndedRequestHandler\<close>

definition SessionEndedRequestHandler_can_handle :: "'doc HandlerInput \<Rightarrow> bool" where
  "SessionEndedRequestHandler_can_handle handler_input =
     is_request_type ''SessionEndedRequest'' handler_input"

definition SessionEndedRequestHandler_handle :: "'doc HandlerInput \<Rightarrow> exn + 'doc Response" where
  "SessionEndedRequestHandler_handle handler_input =
     Inr (response (response_builder handler_input))"

paragraph \<open>IntentReflectorHandler\<close>

definition IntentReflectorHandler_can_handle :: "'doc HandlerInput \<Rightarrow> bool" where
  "IntentReflectorHandler_can_handle handler_input =
     is_request_type ''IntentRequest'' handler_input"

definition IntentReflectorHandler_handle :: "'doc HandlerInput \<Rightarrow> exn + 'doc Response" where
  "IntentReflectorHandler_handle handler_input =
     (case get_intent_name handler_input of
        Inl e \<Rightarrow> Inl e
      | Inr intent_name \<Rightarrow>
          (let speak_output = ''You just triggered '' @ intent_name @ ''.''
           in Inr (response (speak speak_output (response_builder handler_input)))))"

paragraph \<open>CatchAllExceptionHandler\<close>

text \<open>
  The exception handler writes the exception to the module's logger before it answers.
  The logger is the list of the exceptions logged so far.
\<close>

type_synonym Logger = "exn list"

definition logger_error :: "exn \<Rightarrow> Logger \<Rightarrow> Logger" where
  "logger_error exception lg = lg @ [exception]"

definition CatchAllExceptionHandler_can_handle :: "'doc HandlerInput \<Rightarrow> exn \<Rightarrow> bool" where
  "CatchAllExceptionHandler_can_handle handler_input exception = True"

definition CatchAllExceptionHandler_handle ::
  "Logger \<Rightarrow> 'doc HandlerInput \<Rightarrow> exn \<Rightarrow> Logger \<times> 'doc Response" where
  "CatchAllExceptionHandler_handle lg handler_input exception =
     (let lg = logger_error exception lg;
          speak_output = ''Sorry, I had trouble doing what you asked. Please try again.''
      in (lg, response (ask speak_output (speak speak_output (response_builder handler_input)))))"

subsection \<open>Handler objects and their methods\<close>

datatype Handler =
    LaunchRequestHandler
  | HelloWorldIntentHandler
  | HelloWorldWithButtonIntentHandler
  | HelloWorldButtonEventHandler
  | StartOverIntentHandler
  | okIntentHandler
  | CardIntentHandler
  | HelpIntentHandler
  | CancelOrStopIntentHandler
  | SessionEndedRequestHandler
  | IntentReflectorHandler

datatype ExceptionHandler = CatchAllExceptionHandler

fun can_handle :: "Handler \<Rightarrow> 'doc HandlerInput \<Rightarrow> bool" where
  "can_handle LaunchRequestHandler = LaunchRequestHandler_can_handle"
| "can_handle HelloWorldIntentHandler = HelloWorldIntentHandler_can_handle"
| "can_handle HelloWorldWithButtonIntentHandler = HelloWorldWithButtonIntentHandler_can_handle"
| "can_handle HelloWorldButtonEventHandler = HelloWorldButtonEventHandler_can_handle"
| "can_handle StartOverIntentHandler = StartOverIntentHandler_can_handle"
| "can_handle okIntentHandler = okIntentHandler_can_handle"
| "can_handle CardIntentHandler = CardIntentHandler_can_handle"
| "can_handle HelpIntentHandler = HelpIntentHandler_can_handle"
| "can_handle CancelOrStopIntentHandler = CancelOrStopIntentHandler_can_handle"
| "can_handle SessionEndedRequestHandler = SessionEndedRequestHandler_can_handle"
| "can_handle IntentReflectorHandler = IntentReflectorHandler_can_handle"

fun handle :: "'doc FileSystem \<Rightarrow> Handler \<Rightarrow> 'doc HandlerInput \<Rightarrow> exn + 'doc Response" where
  "handle fs LaunchRequestHandler = LaunchRequestHandler_handle"
| "handle fs HelloWorldIntentHandler = HelloWorldIntentHandler_handle fs"
| "handle fs HelloWorldWithButtonIntentHandler = HelloWorldWithButtonIntentHandler_handle fs"
| "handle fs HelloWorldButtonEventHandler = HelloWorldButtonEventHandler_handle"
| "handle fs StartOverIntentHandler = StartOverIntentHandler_handle"
| "handle fs okIntentHandler = okIntentHandler_handle"
| "handle fs CardIntentHandler = CardIntentHandler_handle"
| "handle fs HelpIntentHandler = HelpIntentHandler_handle"
| "handle fs CancelOrStopIntentHandler = CancelOrStopIntentHandler_handle"
| "handle fs SessionEndedRequestHandler = SessionEndedRequestHandler_handle"
| "handle fs IntentReflectorHandler = IntentReflectorHandler_handle"

fun exception_can_handle :: "ExceptionHandler \<Rightarrow> 'doc HandlerInput \<Rightarrow> exn \<Rightarrow> bool" where
  "exception_can_handle CatchAllExceptionHandler = CatchAllExceptionHandler_can_handle"

fun exception_handle ::
  "ExceptionHandler \<Rightarrow> Logger \<Rightarrow> 'doc HandlerInput \<Rightarrow> exn \<Rightarrow> Logger \<times> 'doc Response" where
  "exception_handle CatchAllExceptionHandler = CatchAllExceptionHandler_handle"

subsection \<open>The skill builder and the registration\<close>

text \<open>
  Modelled from the spec: \<open>SkillBuilder\<close> of the ASK SDK is not in the source file.
  The specification, section 3: the registry is an ordered sequence of handlers plus the
  fallback error handler, built once and read-only afterwards. Registering appends.
\<close>

record SkillBuilder =
  request_handlers :: "Handler list"
  exception_handlers :: "ExceptionHandler list"

definition SkillBuilder_init :: SkillBuilder where
  "SkillBuilder_init = \<lparr>request_handlers = [], exception_handlers = []\<rparr>"

definition add_request_handler :: "Handler \<Rightarrow> SkillBuilder \<Rightarrow> SkillBuilder" where
  "add_request_handler h b = b\<lparr>request_handlers := request_handlers b @ [h]\<rparr>"

definition add_exception_handler :: "ExceptionHandler \<Rightarrow> SkillBuilder \<Rightarrow> SkillBuilder" where
  "add_exception_handler h b = b\<lparr>exception_handlers := exception_handlers b @ [h]\<rparr>"

text \<open>The registration statements of the source file, top to bottom.\<close>

definition sb :: SkillBuilder where
  "sb = fold (\<lambda>statement b. statement b)
     [add_request_handler LaunchRequestHandler,
      add_request_handler HelloWorldIntentHandler,
      add_request_handler HelloWorldWithButtonIntentHandler,
      add_request_handler HelloWorldButtonEventHandler,
      add_request_handler StartOverIntentHandler,
      add_request_handler okIntentHandler,
      add_request_handler CardIntentHandler,
      add_request_handler HelpIntentHandler,
      add_request_handler CancelOrStopIntentHandler,
      add_request_handler SessionEndedRequestHandler,
      add_request_handler IntentReflectorHandler,
      add_exception_handler CatchAllExceptionHandler]
     SkillBuilder_init"

subsection \<open>The dispatcher\<close>

text \<open>
  What persists between two invocations of the skill: the layout-document files and
  the log. The registry is the constant \<open>sb\<close>.
\<close>

record 'doc World =
  files :: "'doc FileSystem"
  logger :: Logger

text \<open>
  What one invocation did: the request handlers whose action was executed, in order,
  whether the action of an exception handler was executed, and how the turn ended.
  \<open>Unroutable\<close>: no request handler matched. \<open>Raised e\<close>: the action raised
  \<open>e\<close> and no exception handler matched it.
\<close>

datatype 'doc Outcome = Responded "'doc Response" | Unroutable | Raised exn

record 'doc Turn =
  executed :: "Handler list"
  fallback_executed :: bool
  outcome :: "'doc Outcome"

text \<open>
  Modelled from the spec: the dispatcher of the ASK SDK (what \<open>sb.lambda_handler()\<close>
  returns) is not in the source file. The specification, section 4.2: it iterates the
  registered handlers in their fixed order, takes the first whose predicate holds and
  invokes its action; if the action raises, it catches the failure and invokes the error
  handler instead, which always matches. The source's comment above the registration
  agrees on the order ("The order matters - they're processed top to bottom"). What
  happens when no handler matches is left open by the specification; the model marks
  such a turn as \<open>Unroutable\<close> and says nothing more about it. Each invocation
  starts from an empty response builder.
\<close>

fun find_handler :: "Handler list \<Rightarrow> 'doc HandlerInput \<Rightarrow> Handler option" where
  "find_handler [] handler_input = None"
| "find_handler (h # hs) handler_input =
     (if can_handle h handler_input then Some h else find_handler hs handler_input)"

fun find_exception_handler ::
  "ExceptionHandler list \<Rightarrow> 'doc HandlerInput \<Rightarrow> exn \<Rightarrow> ExceptionHandler option" where
  "find_exception_handler [] handler_input e = None"
| "find_exception_handler (h # hs) handler_input e =
     (if exception_can_handle h handler_input e then Some h
      else find_exception_handler hs handler_input e)"

definition dispatch ::
  "SkillBuilder \<Rightarrow> 'doc World \<Rightarrow> 'doc HandlerInput \<Rightarrow> 'doc Turn \<times> 'doc World" where
  "dispatch b w handler_input =
     (case find_handler (request_handlers b) handler_input of
        None \<Rightarrow>
          (\<lparr>executed = [], fallback_executed = False, outcome = Unroutable\<rparr>, w)
      | Some h \<Rightarrow>
          (case handle (files w) h handler_input of
             Inr r \<Rightarrow>
               (\<lparr>executed = [h], fallback_executed = False, outcome = Responded r\<rparr>, w)
           | Inl e \<Rightarrow>
               (case find_exception_handler (exception_handlers b) handler_input e of
                  None \<Rightarrow>
                    (\<lparr>executed = [h], fallback_executed = False, outcome = Raised e\<rparr>, w)
                | Some x \<Rightarrow>
                    (case exception_handle x (logger w) handler_input e of
                       (lg, r) \<Rightarrow>
                         (\<lparr>executed = [h], fallback_executed = True,
                           outcome = Responded r\<rparr>,
                          w\<lparr>logger := lg\<rparr>)))))"

definition lambda_handler ::
  "'doc World \<Rightarrow> RequestEnvelope \<Rightarrow> 'doc Turn \<times> 'doc World" where
  "lambda_handler w event =
     dispatch sb w \<lparr>request_envelope = event, response_builder = ResponseFactory_init\<rparr>"

section \<open>Properties\<close>

subsection \<open>Unfolding sets and the registry\<close>

lemmas predicate_defs =
  is_request_type_def is_intent_name_def
  LaunchRequestHandler_can_handle_def HelloWorldIntentHandler_can_handle_def
  HelloWorldWithButtonIntentHandler_can_handle_def HelloWorldButtonEventHandler_can_handle_def
  StartOverIntentHandler_can_handle_def okIntentHandler_can_handle_def
  CardIntentHandler_can_handle_def HelpIntentHandler_can_handle_def
  CancelOrStopIntentHandler_can_handle_def SessionEndedRequestHandler_can_handle_def
  IntentReflectorHandler_can_handle_def

lemmas builder_defs =
  ResponseFactory_init_def speak_def ask_def set_card_def add_directive_def response_def

lemmas fallback_defs =
  CatchAllExceptionHandler_can_handle_def CatchAllExceptionHandler_handle_def logger_error_def

lemma sb_request_handlers:
  "request_handlers sb =
     [LaunchRequestHandler, HelloWorldIntentHandler, HelloWorldWithButtonIntentHandler,
      HelloWorldButtonEventHandler, StartOverIntentHandler, okIntentHandler,
      CardIntentHandler, HelpIntentHandler, CancelOrStopIntentHandler,
      SessionEndedRequestHandler, IntentReflectorHandler]"
  by (simp add: sb_def add_request_handler_def add_exception_handler_def SkillBuilder_init_def)

lemma sb_exception_handlers: "exception_handlers sb = [CatchAllExceptionHandler]"
  by (simp add: sb_def add_request_handler_def add_exception_handler_def SkillBuilder_init_def)

subsection \<open>Routing: which handler the registry selects\<close>

lemma find_handler_IntentRequest:
  assumes "request (request_envelope handler_input) = IntentRequest n"
  shows "find_handler (request_handlers sb) handler_input =
     Some (if n = ''HelloWorldIntent'' then HelloWorldIntentHandler
           else if n = ''HelloWorldWithButtonIntent'' then HelloWorldWithButtonIntentHandler
           else if n = ''AMAZON.StartOverIntent'' then StartOverIntentHandler
           else if n = ''okIntent'' then okIntentHandler
           else if n = ''CardIntent'' then CardIntentHandler
           else if n = ''AMAZON.HelpIntent'' then HelpIntentHandler
           else if n = ''AMAZON.CancelIntent'' \<or> n = ''AMAZON.StopIntent''
             then CancelOrStopIntentHandler
           else IntentReflectorHandler)"
  using assms by (simp add: sb_request_handlers predicate_defs)

lemma find_handler_LaunchRequest:
  assumes "request (request_envelope handler_input) = LaunchRequest"
  shows "find_handler (request_handlers sb) handler_input = Some LaunchRequestHandler"
  using assms by (simp add: sb_request_handlers predicate_defs)

lemma find_handler_UserEvent:
  assumes "request (request_envelope handler_input) = UserEvent s"
  shows "find_handler (request_handlers sb) handler_input =
     (if s ''id'' = Some ''fadeHelloTextButton'' then Some HelloWorldButtonEventHandler
      else None)"
  using assms by (simp add: sb_request_handlers predicate_defs)

subsection \<open>The three ways a turn ends\<close>

lemma lambda_handler_returns:
  fixes w :: "'doc World"
  assumes "find_handler (request_handlers sb)
             \<lparr>request_envelope = event,
              response_builder = ResponseFactory_init :: 'doc ResponseFactory\<rparr>
           = Some h"
    and "handle (files w) h
             \<lparr>request_envelope = event, response_builder = ResponseFactory_init\<rparr> = Inr r"
  shows "lambda_handler w event =
           (\<lparr>executed = [h], fallback_executed = False, outcome = Responded r\<rparr>, w)"
  using assms by (simp add: lambda_handler_def dispatch_def)

lemma lambda_handler_recovers:
  fixes w :: "'doc World"
  assumes "find_handler (request_handlers sb)
             \<lparr>request_envelope = event,
              response_builder = ResponseFactory_init :: 'doc ResponseFactory\<rparr>
           = Some h"
    and "handle (files w) h
             \<lparr>request_envelope = event, response_builder = ResponseFactory_init\<rparr> = Inl e"
  shows "lambda_handler w event =
           (\<lparr>executed = [h], fallback_executed = True,
             outcome = Responded
               \<lparr>speech = Some ''Sorry, I had trouble doing what you asked. Please try again.'',
                reprompt = Some ''Sorry, I had trouble doing what you asked. Please try again.'',
                card = None, directives = [], shouldEndSession = False\<rparr>\<rparr>,
            w\<lparr>logger := logger w @ [e]\<rparr>)"
  using assms
  by (simp add: lambda_handler_def dispatch_def sb_exception_handlers fallback_defs
        builder_defs Let_def)

lemma lambda_handler_unroutable:
  fixes w :: "'doc World"
  assumes "find_handler (request_handlers sb)
             \<lparr>request_envelope = event,
              response_builder = ResponseFactory_init :: 'doc ResponseFactory\<rparr>
           = None"
  shows "lambda_handler w event =
           (\<lparr>executed = [], fallback_executed = False, outcome = Unroutable\<rparr>, w)"
  using assms by (simp add: lambda_handler_def dispatch_def)

text \<open>
  The action of \<open>StartOverIntentHandler\<close> on a device without a screen: the variable
  \<open>speak_output\<close> still holds \<open>None\<close> when \<open>+=\<close> is applied to it.
\<close>

lemma StartOverIntentHandler_handle_no_screen:
  assumes "alexa_presentation_apl (supported_interfaces (request_envelope handler_input)) = None"
  shows "StartOverIntentHandler_handle handler_input = Inl TypeError"
  using assms
  by (simp add: StartOverIntentHandler_handle_def get_supported_interfaces_def)

subsection \<open>Claim C1: a CardIntent request is answered by CardIntentHandler\<close>

text \<open>
  C1. For every intent request whose intent name is "CardIntent", the dispatcher selects
  \<open>CardIntentHandler\<close> and never \<open>IntentReflectorHandler\<close>: the first handler in
  registration order whose predicate matches is \<open>CardIntentHandler\<close>, it is registered
  before \<open>IntentReflectorHandler\<close> (whose predicate matches the request too), its
  action is the only one executed and the turn ends with the response of that action.
\<close>

theorem CardIntent_selects_CardIntentHandler:
  fixes w :: "'doc World"
  assumes "request event = IntentRequest ''CardIntent''"
  shows "find_handler (request_handlers sb)
           \<lparr>request_envelope = event,
            response_builder = ResponseFactory_init :: 'doc ResponseFactory\<rparr>
         = Some CardIntentHandler \<and>
         can_handle IntentReflectorHandler
           \<lparr>request_envelope = event,
            response_builder = ResponseFactory_init :: 'doc ResponseFactory\<rparr> \<and>
         CardIntentHandler \<in>
           set (takeWhile (\<lambda>h. h \<noteq> IntentReflectorHandler) (request_handlers sb)) \<and>
         executed (fst (lambda_handler w event)) = [CardIntentHandler] \<and>
         IntentReflectorHandler \<notin> set (executed (fst (lambda_handler w event))) \<and>
         (\<exists>r. CardIntentHandler_handle
                \<lparr>request_envelope = event, response_builder = ResponseFactory_init\<rparr> = Inr r \<and>
              outcome (fst (lambda_handler w event)) = Responded r)"
proof -
  let ?hi = "\<lparr>request_envelope = event,
              response_builder = ResponseFactory_init :: 'doc ResponseFactory\<rparr>"
  have req: "request (request_envelope ?hi) = IntentRequest ''CardIntent''"
    using assms by simp
  have sel: "find_handler (request_handlers sb) ?hi = Some CardIntentHandler"
    using find_handler_IntentRequest [OF req] by simp
  have also_matches: "can_handle IntentReflectorHandler ?hi"
    using assms by (simp add: predicate_defs)
  have before: "CardIntentHandler \<in>
      set (takeWhile (\<lambda>h. h \<noteq> IntentReflectorHandler) (request_handlers sb))"
    by (simp add: sb_request_handlers)
  have "\<exists>r. CardIntentHandler_handle ?hi = Inr r"
    by (simp add: CardIntentHandler_handle_def)
  then obtain r where r: "CardIntentHandler_handle ?hi = Inr r" ..
  then have act: "handle (files w) CardIntentHandler ?hi = Inr r"
    by simp
  show ?thesis
    using sel also_matches before r lambda_handler_returns [OF sel act] by simp
qed

theorem CardIntent_selects_CardIntentHandler_witness:
  "executed (fst (lambda_handler
      (\<lparr>files = (\<lambda>p. Inl OSError), logger = []\<rparr> :: string World)
      \<lparr>request = IntentRequest ''CardIntent'',
       supported_interfaces = \<lparr>alexa_presentation_apl = None\<rparr>,
       context_alexa_presentation_apl = None\<rparr>)) = [CardIntentHandler]"
proof -
  have h: "request \<lparr>request = IntentRequest ''CardIntent'',
       supported_interfaces = \<lparr>alexa_presentation_apl = None\<rparr>,
       context_alexa_presentation_apl = None\<rparr> = IntentRequest ''CardIntent''"
    by simp
  from CardIntent_selects_CardIntentHandler
         [OF h, where w = "\<lparr>files = (\<lambda>p. Inl OSError), logger = []\<rparr> :: string World"]
  show ?thesis by simp
qed

subsection \<open>Claim C2: the greeting with and without a screen\<close>

text \<open>
  C2, as amended. The claim promises the render-document directive and the "Hello
  World!" speech for every "HelloWorldIntent" request on a device with a screen. The
  action reads the greeting layout document first (\<open>_load_apl_document\<close>), and a
  read that fails is a failure of the action: the claim holds where the document loads.
  For every intent request whose intent name is "HelloWorldIntent": on a device
  without screen (APL) support the response carries no directive; on a device with screen
  support, where the greeting layout document (a file beside the source, here the
  entry of the file system at \<open>hello_world_doc_path\<close>) loads, the response carries the
  render-document directive with the token "helloworldToken" and that document. In both
  of these cases the speech is "Hello World!" followed by the clause for that capability.
\<close>

theorem HelloWorldIntent_directive_by_capability:
  fixes w :: "'doc World"
  assumes "request event = IntentRequest ''HelloWorldIntent''"
  shows "(alexa_presentation_apl (supported_interfaces event) = None \<longrightarrow>
            outcome (fst (lambda_handler w event)) =
              Responded
                \<lparr>speech = Some (''Hello World!'' @
                   '' This example would be more interesting on a device with a screen, such as an Echo Show or Fire TV.''),
                 reprompt = None, card = None, directives = [],
                 shouldEndSession = True\<rparr>) \<and>
         (\<forall>doc. alexa_presentation_apl (supported_interfaces event) \<noteq> None \<and>
                files w hello_world_doc_path = Inr doc \<longrightarrow>
            outcome (fst (lambda_handler w event)) =
              Responded
                \<lparr>speech = Some (''Hello World!'' @
                   '' You should now also see my greeting on the screen.''),
                 reprompt = None, card = None,
                 directives = [RenderDocumentDirective ''helloworldToken'' doc],
                 shouldEndSession = True\<rparr>) \<and>
         HELLO_WORLD_TOKEN = ''helloworldToken''"
proof -
  let ?hi = "\<lparr>request_envelope = event,
              response_builder = ResponseFactory_init :: 'doc ResponseFactory\<rparr>"
  have req: "request (request_envelope ?hi) = IntentRequest ''HelloWorldIntent''"
    using assms by simp
  have sel: "find_handler (request_handlers sb) ?hi = Some HelloWorldIntentHandler"
    using find_handler_IntentRequest [OF req] by simp
  have plain: "alexa_presentation_apl (supported_interfaces event) = None \<Longrightarrow>
      handle (files w) HelloWorldIntentHandler ?hi =
        Inr \<lparr>speech = Some (''Hello World!'' @
                 '' This example would be more interesting on a device with a screen, such as an Echo Show or Fire TV.''),
             reprompt = None, card = None, directives = [], shouldEndSession = True\<rparr>"
    by (simp add: HelloWorldIntentHandler_handle_def get_supported_interfaces_def builder_defs)
  have screen: "alexa_presentation_apl (supported_interfaces event) \<noteq> None \<Longrightarrow>
      files w hello_world_doc_path = Inr doc \<Longrightarrow>
      handle (files w) HelloWorldIntentHandler ?hi =
        Inr \<lparr>speech = Some (''Hello World!'' @
                 '' You should now also see my greeting on the screen.''),
             reprompt = None, card = None,
             directives = [RenderDocumentDirective ''helloworldToken'' doc],
             shouldEndSession = True\<rparr>" for doc
    by (simp add: HelloWorldIntentHandler_handle_def get_supported_interfaces_def
          load_apl_document_def builder_defs HELLO_WORLD_TOKEN_def)
  show ?thesis
    using lambda_handler_returns [OF sel plain] lambda_handler_returns [OF sel screen]
    by (simp add: HELLO_WORLD_TOKEN_def)
qed

theorem HelloWorldIntent_directive_by_capability_witness:
  "outcome (fst (lambda_handler
      (\<lparr>files = (\<lambda>p. Inr (''document at '' @ p)), logger = []\<rparr> :: string World)
      \<lparr>request = IntentRequest ''HelloWorldIntent'',
       supported_interfaces = \<lparr>alexa_presentation_apl = None\<rparr>,
       context_alexa_presentation_apl = None\<rparr>)) =
     Responded
       \<lparr>speech = Some ''Hello World! This example would be more interesting on a device with a screen, such as an Echo Show or Fire TV.'',
        reprompt = None, card = None, directives = [], shouldEndSession = True\<rparr> \<and>
   outcome (fst (lambda_handler
      (\<lparr>files = (\<lambda>p. Inr (''document at '' @ p)), logger = []\<rparr> :: string World)
      \<lparr>request = IntentRequest ''HelloWorldIntent'',
       supported_interfaces = \<lparr>alexa_presentation_apl = Some AlexaPresentationAplInterface\<rparr>,
       context_alexa_presentation_apl = None\<rparr>)) =
     Responded
       \<lparr>speech = Some ''Hello World! You should now also see my greeting on the screen.'',
        reprompt = None, card = None,
        directives = [RenderDocumentDirective ''helloworldToken''
                        ''document at helloworldDocument.json''],
        shouldEndSession = True\<rparr>"
proof -
  let ?w = "\<lparr>files = (\<lambda>p. Inr (''document at '' @ p)), logger = []\<rparr> :: string World"
  let ?plain = "\<lparr>request = IntentRequest ''HelloWorldIntent'',
       supported_interfaces = \<lparr>alexa_presentation_apl = None\<rparr>,
       context_alexa_presentation_apl = None\<rparr>"
  let ?screen = "\<lparr>request = IntentRequest ''HelloWorldIntent'',
       supported_interfaces = \<lparr>alexa_presentation_apl = Some AlexaPresentationAplInterface\<rparr>,
       context_alexa_presentation_apl = None\<rparr>"
  have h1: "request ?plain = IntentRequest ''HelloWorldIntent''" by simp
  have h2: "request ?screen = IntentRequest ''HelloWorldIntent''" by simp
  have f: "files ?w hello_world_doc_path = Inr ''document at helloworldDocument.json''"
    by (simp add: hello_world_doc_path_def)
  from HelloWorldIntent_directive_by_capability [OF h1, where w = ?w]
       HelloWorldIntent_directive_by_capability [OF h2, where w = ?w] f
  show ?thesis by simp
qed

text \<open>
  Where the layout document cannot be read, the action raises what the read raised
  before anything is added to the response; the turn then ends with the apology of the
  exception handler (\<open>lambda_handler_recovers\<close>).
\<close>

lemma HelloWorldIntent_document_unreadable:
  fixes w :: "'doc World"
  assumes "alexa_presentation_apl (supported_interfaces event) \<noteq> None"
    and "files w hello_world_doc_path = Inl e"
  shows "HelloWorldIntentHandler_handle (files w)
           \<lparr>request_envelope = event, response_builder = ResponseFactory_init\<rparr> = Inl e"
  using assms
  by (simp add: HelloWorldIntentHandler_handle_def get_supported_interfaces_def
        load_apl_document_def)

text \<open>
  C2 as stated fails: a "HelloWorldIntent" request from a device with a screen, where
  the file \<open>helloworldDocument.json\<close> cannot be opened. The action raises, and the
  response is the apology of the exception handler: it carries no directive, and its
  speech does not start with "Hello World!".
\<close>

theorem HelloWorldIntent_unreadable_document_counterexample:
  "alexa_presentation_apl (supported_interfaces
      \<lparr>request = IntentRequest ''HelloWorldIntent'',
       supported_interfaces = \<lparr>alexa_presentation_apl = Some AlexaPresentationAplInterface\<rparr>,
       context_alexa_presentation_apl = None\<rparr>) \<noteq> None \<and>
   outcome (fst (lambda_handler
      (\<lparr>files = (\<lambda>p. Inl OSError), logger = []\<rparr> :: string World)
      \<lparr>request = IntentRequest ''HelloWorldIntent'',
       supported_interfaces = \<lparr>alexa_presentation_apl = Some AlexaPresentationAplInterface\<rparr>,
       context_alexa_presentation_apl = None\<rparr>)) =
     Responded
       \<lparr>speech = Some ''Sorry, I had trouble doing what you asked. Please try again.'',
        reprompt = Some ''Sorry, I had trouble doing what you asked. Please try again.'',
        card = None, directives = [], shouldEndSession = False\<rparr>"
proof -
  let ?w = "\<lparr>files = (\<lambda>p. Inl OSError), logger = []\<rparr> :: string World"
  let ?event = "\<lparr>request = IntentRequest ''HelloWorldIntent'',
       supported_interfaces = \<lparr>alexa_presentation_apl = Some AlexaPresentationAplInterface\<rparr>,
       context_alexa_presentation_apl = None\<rparr>"
  let ?hi = "\<lparr>request_envelope = ?event,
              response_builder = ResponseFactory_init :: string ResponseFactory\<rparr>"
  have screen: "alexa_presentation_apl (supported_interfaces ?event) \<noteq> None"
    by simp
  have unreadable: "files ?w hello_world_doc_path = Inl OSError"
    by simp
  have req: "request (request_envelope ?hi) = IntentRequest ''HelloWorldIntent''"
    by simp
  have sel: "find_handler (request_handlers sb) ?hi = Some HelloWorldIntentHandler"
    using find_handler_IntentRequest [OF req] by simp
  have "HelloWorldIntentHandler_handle (files ?w) ?hi = Inl OSError"
    by (rule HelloWorldIntent_document_unreadable [OF screen unreadable])
  then have act: "handle (files ?w) HelloWorldIntentHandler ?hi = Inl OSError"
    by simp
  show ?thesis
    using screen lambda_handler_recovers [OF sel act] by simp
qed

subsection \<open>Claim C3: starting over while the button layout is displayed\<close>

text \<open>
  C3. For every intent request whose intent name is "AMAZON.StartOverIntent", on a device
  with screen support whose displayed document has the token
  "helloworldWithButtonToken", the response carries the speech that confirms the reset and
  exactly one directive: execute-commands, targeted at that same token, with the one
  command that animates the opacity of the component "helloTextComponent" to 1.0 over
  3000 milliseconds.
\<close>

theorem StartOverIntent_animates_hello_text:
  fixes w :: "'doc World"
  assumes "request event = IntentRequest ''AMAZON.StartOverIntent''"
    and "alexa_presentation_apl (supported_interfaces event) \<noteq> None"
    and "context_alexa_presentation_apl event = Some c"
    and "token c = Some ''helloworldWithButtonToken''"
  shows "outcome (fst (lambda_handler w event)) =
           Responded
             \<lparr>speech = Some ''OK, I'm going to try to bring that text back into view.'',
              reprompt = None, card = None,
              directives =
                [ExecuteCommandsDirective ''helloworldWithButtonToken''
                   [AnimateItemCommand ''helloTextComponent'' 3000
                      [AnimatedOpacityProperty 1.0]]],
              shouldEndSession = True\<rparr> \<and>
         executed (fst (lambda_handler w event)) = [StartOverIntentHandler] \<and>
         HELLO_WORLD_WITH_BUTTON_TOKEN = ''helloworldWithButtonToken''"
proof -
  let ?hi = "\<lparr>request_envelope = event,
              response_builder = ResponseFactory_init :: 'doc ResponseFactory\<rparr>"
  have req: "request (request_envelope ?hi) = IntentRequest ''AMAZON.StartOverIntent''"
    using assms(1) by simp
  have sel: "find_handler (request_handlers sb) ?hi = Some StartOverIntentHandler"
    using find_handler_IntentRequest [OF req] by simp
  have act: "handle (files w) StartOverIntentHandler ?hi =
      Inr \<lparr>speech = Some ''OK, I'm going to try to bring that text back into view.'',
           reprompt = None, card = None,
           directives =
             [ExecuteCommandsDirective ''helloworldWithButtonToken''
                [AnimateItemCommand ''helloTextComponent'' 3000
                   [AnimatedOpacityProperty 1.0]]],
           shouldEndSession = True\<rparr>"
    using assms(2-4)
    by (simp add: StartOverIntentHandler_handle_def get_supported_interfaces_def
          builder_defs HELLO_WORLD_WITH_BUTTON_TOKEN_def)
  show ?thesis
    using lambda_handler_returns [OF sel act]
    by (simp add: HELLO_WORLD_WITH_BUTTON_TOKEN_def)
qed

theorem StartOverIntent_animates_hello_text_witness:
  "outcome (fst (lambda_handler
      (\<lparr>files = (\<lambda>p. Inl OSError), logger = []\<rparr> :: string World)
      \<lparr>request = IntentRequest ''AMAZON.StartOverIntent'',
       supported_interfaces = \<lparr>alexa_presentation_apl = Some AlexaPresentationAplInterface\<rparr>,
       context_alexa_presentation_apl =
         Some \<lparr>token = Some ''helloworldWithButtonToken''\<rparr>\<rparr>)) =
     Responded
       \<lparr>speech = Some ''OK, I'm going to try to bring that text back into view.'',
        reprompt = None, card = None,
        directives =
          [ExecuteCommandsDirective ''helloworldWithButtonToken''
             [AnimateItemCommand ''helloTextComponent'' 3000 [AnimatedOpacityProperty 1]]],
        shouldEndSession = True\<rparr>"
proof -
  let ?w = "\<lparr>files = (\<lambda>p. Inl OSError), logger = []\<rparr> :: string World"
  let ?c = "\<lparr>token = Some ''helloworldWithButtonToken''\<rparr>"
  let ?event = "\<lparr>request = IntentRequest ''AMAZON.StartOverIntent'',
       supported_interfaces = \<lparr>alexa_presentation_apl = Some AlexaPresentationAplInterface\<rparr>,
       context_alexa_presentation_apl = Some ?c\<rparr>"
  have h1: "request ?event = IntentRequest ''AMAZON.StartOverIntent''" by simp
  have h2: "alexa_presentation_apl (supported_interfaces ?event) \<noteq> None" by simp
  have h3: "context_alexa_presentation_apl ?event = Some ?c" by simp
  have h4: "token ?c = Some ''helloworldWithButtonToken''" by simp
  have "outcome (fst (lambda_handler ?w ?event)) =
     Responded
       \<lparr>speech = Some ''OK, I'm going to try to bring that text back into view.'',
        reprompt = None, card = None,
        directives =
          [ExecuteCommandsDirective ''helloworldWithButtonToken''
             [AnimateItemCommand ''helloTextComponent'' 3000 [AnimatedOpacityProperty 1]]],
        shouldEndSession = True\<rparr>"
    using StartOverIntent_animates_hello_text [OF h1 h2 h3 h4, where w = ?w]
    by (simp add: HELLO_WORLD_WITH_BUTTON_TOKEN_def)
  then show ?thesis .
qed

subsection \<open>Claim C4: starting over on a device without a screen\<close>

text \<open>
  C4. The claim: for an intent request whose intent name is "AMAZON.StartOverIntent" on a
  device without screen support, the action of \<open>StartOverIntentHandler\<close> appends the
  screen-suggestion clause onto the speech and returns a response carrying that speech.
  The source initialises \<open>speak_output\<close> with \<open>None\<close> and then applies \<open>+=\<close>
  to it: evaluated at such a request, the action raises \<open>TypeError\<close> and returns no
  response; the turn ends with the apology of the exception handler, not with the
  screen-suggestion clause.
\<close>

theorem StartOverIntent_without_screen_raises:
  "StartOverIntentHandler_handle
     \<lparr>request_envelope =
        \<lparr>request = IntentRequest ''AMAZON.StartOverIntent'',
         supported_interfaces = \<lparr>alexa_presentation_apl = None\<rparr>,
         context_alexa_presentation_apl = None\<rparr>,
      response_builder = ResponseFactory_init :: string ResponseFactory\<rparr>
   = Inl TypeError \<and>
   outcome (fst (lambda_handler
      (\<lparr>files = (\<lambda>p. Inr (''document at '' @ p)), logger = []\<rparr> :: string World)
      \<lparr>request = IntentRequest ''AMAZON.StartOverIntent'',
       supported_interfaces = \<lparr>alexa_presentation_apl = None\<rparr>,
       context_alexa_presentation_apl = None\<rparr>)) =
     Responded
       \<lparr>speech = Some ''Sorry, I had trouble doing what you asked. Please try again.'',
        reprompt = Some ''Sorry, I had trouble doing what you asked. Please try again.'',
        card = None, directives = [], shouldEndSession = False\<rparr>"
proof -
  let ?w = "\<lparr>files = (\<lambda>p. Inr (''document at '' @ p)), logger = []\<rparr> :: string World"
  let ?event = "\<lparr>request = IntentRequest ''AMAZON.StartOverIntent'',
       supported_interfaces = \<lparr>alexa_presentation_apl = None\<rparr>,
       context_alexa_presentation_apl = None\<rparr>"
  let ?hi = "\<lparr>request_envelope = ?event,
              response_builder = ResponseFactory_init :: string ResponseFactory\<rparr>"
  have req: "request (request_envelope ?hi) = IntentRequest ''AMAZON.StartOverIntent''"
    by simp
  have sel: "find_handler (request_handlers sb) ?hi = Some StartOverIntentHandler"
    using find_handler_IntentRequest [OF req] by simp
  have raises: "StartOverIntentHandler_handle ?hi = Inl TypeError"
    by (rule StartOverIntentHandler_handle_no_screen) simp
  then have act: "handle (files ?w) StartOverIntentHandler ?hi = Inl TypeError"
    by simp
  show ?thesis
    using raises lambda_handler_recovers [OF sel act] by simp
qed

subsection \<open>Claim C5: a failed action is answered with the apology\<close>

text \<open>
  C5. For every inbound event, if the action of the selected handler raises a failure,
  the dispatcher catches it: the exception handler's action is executed, the failure is
  logged, and the final response has the speech "Sorry, I had trouble doing what you
  asked. Please try again." and the same text as reprompt, so the session stays open.
  The predicate of the exception handler is true for every handler input and exception,
  and it is the exception handler registered.
\<close>

theorem failed_action_yields_apology:
  fixes w :: "'doc World"
  assumes "find_handler (request_handlers sb)
             \<lparr>request_envelope = event,
              response_builder = ResponseFactory_init :: 'doc ResponseFactory\<rparr>
           = Some h"
    and "handle (files w) h
             \<lparr>request_envelope = event, response_builder = ResponseFactory_init\<rparr> = Inl e"
  shows "outcome (fst (lambda_handler w event)) =
           Responded
             \<lparr>speech = Some ''Sorry, I had trouble doing what you asked. Please try again.'',
              reprompt = Some ''Sorry, I had trouble doing what you asked. Please try again.'',
              card = None, directives = [], shouldEndSession = False\<rparr> \<and>
         fallback_executed (fst (lambda_handler w event)) \<and>
         logger (snd (lambda_handler w event)) = logger w @ [e] \<and>
         exception_handlers sb = [CatchAllExceptionHandler] \<and>
         (\<forall>(handler_input :: 'doc HandlerInput) exception.
            exception_can_handle CatchAllExceptionHandler handler_input exception)"
  using lambda_handler_recovers [OF assms]
  by (simp add: sb_exception_handlers CatchAllExceptionHandler_can_handle_def)

theorem failed_action_yields_apology_witness:
  "outcome (fst (lambda_handler
      (\<lparr>files = (\<lambda>p. Inl OSError), logger = []\<rparr> :: string World)
      \<lparr>request = IntentRequest ''AMAZON.StartOverIntent'',
       supported_interfaces = \<lparr>alexa_presentation_apl = None\<rparr>,
       context_alexa_presentation_apl = None\<rparr>)) =
     Responded
       \<lparr>speech = Some ''Sorry, I had trouble doing what you asked. Please try again.'',
        reprompt = Some ''Sorry, I had trouble doing what you asked. Please try again.'',
        card = None, directives = [], shouldEndSession = False\<rparr> \<and>
   logger (snd (lambda_handler
      (\<lparr>files = (\<lambda>p. Inl OSError), logger = []\<rparr> :: string World)
      \<lparr>request = IntentRequest ''AMAZON.StartOverIntent'',
       supported_interfaces = \<lparr>alexa_presentation_apl = None\<rparr>,
       context_alexa_presentation_apl = None\<rparr>)) = [TypeError]"
proof -
  let ?w = "\<lparr>files = (\<lambda>p. Inl OSError), logger = []\<rparr> :: string World"
  let ?event = "\<lparr>request = IntentRequest ''AMAZON.StartOverIntent'',
       supported_interfaces = \<lparr>alexa_presentation_apl = None\<rparr>,
       context_alexa_presentation_apl = None\<rparr>"
  let ?hi = "\<lparr>request_envelope = ?event,
              response_builder = ResponseFactory_init :: string ResponseFactory\<rparr>"
  have req: "request (request_envelope ?hi) = IntentRequest ''AMAZON.StartOverIntent''"
    by simp
  have sel: "find_handler (request_handlers sb) ?hi = Some StartOverIntentHandler"
    using find_handler_IntentRequest [OF req] by simp
  have "StartOverIntentHandler_handle ?hi = Inl TypeError"
    by (rule StartOverIntentHandler_handle_no_screen) simp
  then have act: "handle (files ?w) StartOverIntentHandler ?hi = Inl TypeError"
    by simp
  from failed_action_yields_apology [OF sel act]
  show ?thesis by simp
qed

subsection \<open>Claim C6: stop and cancel\<close>

text \<open>
  C6. For every intent request whose intent name is "AMAZON.StopIntent" or
  "AMAZON.CancelIntent", the response has the speech "Goodbye!", no reprompt, and
  \<open>shouldEndSession\<close> true.
\<close>

theorem CancelOrStop_says_goodbye:
  fixes w :: "'doc World"
  assumes "request event = IntentRequest ''AMAZON.StopIntent'' \<or>
           request event = IntentRequest ''AMAZON.CancelIntent''"
  shows "outcome (fst (lambda_handler w event)) =
           Responded
             \<lparr>speech = Some ''Goodbye!'', reprompt = None, card = None, directives = [],
              shouldEndSession = True\<rparr> \<and>
         executed (fst (lambda_handler w event)) = [CancelOrStopIntentHandler]"
proof -
  let ?hi = "\<lparr>request_envelope = event,
              response_builder = ResponseFactory_init :: 'doc ResponseFactory\<rparr>"
  have sel: "find_handler (request_handlers sb) ?hi = Some CancelOrStopIntentHandler"
  proof -
    from assms consider
        (stop) "request (request_envelope ?hi) = IntentRequest ''AMAZON.StopIntent''"
      | (cancel) "request (request_envelope ?hi) = IntentRequest ''AMAZON.CancelIntent''"
      by auto
    then show ?thesis
    proof cases
      case stop
      from find_handler_IntentRequest [OF stop] show ?thesis by simp
    next
      case cancel
      from find_handler_IntentRequest [OF cancel] show ?thesis by simp
    qed
  qed
  have act: "handle (files w) CancelOrStopIntentHandler ?hi =
      Inr \<lparr>speech = Some ''Goodbye!'', reprompt = None, card = None, directives = [],
           shouldEndSession = True\<rparr>"
    by (simp add: CancelOrStopIntentHandler_handle_def builder_defs)
  show ?thesis
    using lambda_handler_returns [OF sel act] by simp
qed

theorem CancelOrStop_says_goodbye_witness:
  "outcome (fst (lambda_handler
      (\<lparr>files = (\<lambda>p. Inl OSError), logger = []\<rparr> :: string World)
      \<lparr>request = IntentRequest ''AMAZON.StopIntent'',
       supported_interfaces = \<lparr>alexa_presentation_apl = None\<rparr>,
       context_alexa_presentation_apl = None\<rparr>)) =
     Responded
       \<lparr>speech = Some ''Goodbye!'', reprompt = None, card = None, directives = [],
        shouldEndSession = True\<rparr> \<and>
   outcome (fst (lambda_handler
      (\<lparr>files = (\<lambda>p. Inl OSError), logger = []\<rparr> :: string World)
      \<lparr>request = IntentRequest ''AMAZON.CancelIntent'',
       supported_interfaces = \<lparr>alexa_presentation_apl = Some AlexaPresentationAplInterface\<rparr>,
       context_alexa_presentation_apl = None\<rparr>)) =
     Responded
       \<lparr>speech = Some ''Goodbye!'', reprompt = None, card = None, directives = [],
        shouldEndSession = True\<rparr>"
proof -
  let ?w = "\<lparr>files = (\<lambda>p. Inl OSError), logger = []\<rparr> :: string World"
  let ?stop = "\<lparr>request = IntentRequest ''AMAZON.StopIntent'',
       supported_interfaces = \<lparr>alexa_presentation_apl = None\<rparr>,
       context_alexa_presentation_apl = None\<rparr>"
  let ?cancel = "\<lparr>request = IntentRequest ''AMAZON.CancelIntent'',
       supported_interfaces = \<lparr>alexa_presentation_apl = Some AlexaPresentationAplInterface\<rparr>,
       context_alexa_presentation_apl = None\<rparr>"
  have h1: "request ?stop = IntentRequest ''AMAZON.StopIntent'' \<or>
            request ?stop = IntentRequest ''AMAZON.CancelIntent''" by simp
  have h2: "request ?cancel = IntentRequest ''AMAZON.StopIntent'' \<or>
            request ?cancel = IntentRequest ''AMAZON.CancelIntent''" by simp
  from CancelOrStop_says_goodbye [OF h1, where w = ?w]
       CancelOrStop_says_goodbye [OF h2, where w = ?w]
  show ?thesis by simp
qed

subsection \<open>Claim C7: the launch greeting is its own reprompt\<close>

text \<open>
  C7. For every launch request, the reprompt of the response is present, is not empty
  and equals the speech of the response, "Welcome Aman, you can say Hello or Help. Which
  would you like to try?".
\<close>

theorem LaunchRequest_reprompt_equals_speech:
  fixes w :: "'doc World"
  assumes "request event = LaunchRequest"
  shows "\<exists>r. outcome (fst (lambda_handler w event)) = Responded r \<and>
             speech r =
               Some ''Welcome Aman, you can say Hello or Help. Which would you like to try?'' \<and>
             reprompt r = speech r \<and>
             reprompt r \<noteq> None \<and> reprompt r \<noteq> Some ''''"
proof -
  let ?hi = "\<lparr>request_envelope = event,
              response_builder = ResponseFactory_init :: 'doc ResponseFactory\<rparr>"
  let ?text = "''Welcome Aman, you can say Hello or Help. Which would you like to try?''"
  have req: "request (request_envelope ?hi) = LaunchRequest"
    using assms by simp
  have sel: "find_handler (request_handlers sb) ?hi = Some LaunchRequestHandler"
    by (rule find_handler_LaunchRequest [OF req])
  have act: "handle (files w) LaunchRequestHandler ?hi =
      Inr \<lparr>speech = Some ?text, reprompt = Some ?text, card = None, directives = [],
           shouldEndSession = False\<rparr>"
    by (simp add: LaunchRequestHandler_handle_def builder_defs Let_def)
  show ?thesis
    using lambda_handler_returns [OF sel act] by simp
qed

theorem LaunchRequest_reprompt_equals_speech_witness:
  "\<exists>r. outcome (fst (lambda_handler
      (\<lparr>files = (\<lambda>p. Inl OSError), logger = []\<rparr> :: string World)
      \<lparr>request = LaunchRequest,
       supported_interfaces = \<lparr>alexa_presentation_apl = None\<rparr>,
       context_alexa_presentation_apl = None\<rparr>)) = Responded r \<and>
     reprompt r = speech r \<and> reprompt r \<noteq> None"
proof -
  let ?w = "\<lparr>files = (\<lambda>p. Inl OSError), logger = []\<rparr> :: string World"
  let ?event = "\<lparr>request = LaunchRequest,
       supported_interfaces = \<lparr>alexa_presentation_apl = None\<rparr>,
       context_alexa_presentation_apl = None\<rparr>"
  have h: "request ?event = LaunchRequest" by simp
  from LaunchRequest_reprompt_equals_speech [OF h, where w = ?w]
  show ?thesis by blast
qed

subsection \<open>Claim C8: a turn depends on the event and the layout files only\<close>

text \<open>
  C8. Dispatch is deterministic: invoking the skill twice with the same event gives the
  same turn, and so the same response. An invocation leaves the layout-document files as
  they were, the only state it writes is the log, and no turn depends on the log: the
  second invocation, run in the world the first one left, and an invocation in a world
  with any other log, end as the first did.
\<close>

theorem lambda_handler_repeatable:
  fixes w :: "'doc World"
  shows "fst (lambda_handler (snd (lambda_handler w event)) event) =
           fst (lambda_handler w event) \<and>
         files (snd (lambda_handler w event)) = files w \<and>
         fst (lambda_handler (w\<lparr>logger := lg\<rparr>) event) = fst (lambda_handler w event)"
proof -
  have files_kept: "files (snd (dispatch b v handler_input)) = files v"
    for b and v :: "'doc World" and handler_input
    by (simp add: dispatch_def split: option.split sum.split prod.split)
  have log_free: "fst (dispatch b v handler_input) = fst (dispatch b v' handler_input)"
    if "files v' = files v"
    for b and v v' :: "'doc World" and handler_input
  proof -
    have same_answer:
      "snd (exception_handle x (logger v) handler_input e) =
       snd (exception_handle x (logger v') handler_input e)" for x e
      by (cases x) (simp add: CatchAllExceptionHandler_handle_def Let_def)
    show ?thesis
      using that same_answer
      by (simp add: dispatch_def split_beta split: option.split sum.split)
  qed
  have "files (snd (lambda_handler w event)) = files w"
    unfolding lambda_handler_def by (rule files_kept)
  moreover from this
  have "fst (lambda_handler (snd (lambda_handler w event)) event) = fst (lambda_handler w event)"
    unfolding lambda_handler_def by (intro log_free) simp
  moreover
  have "fst (lambda_handler (w\<lparr>logger := lg\<rparr>) event) = fst (lambda_handler w event)"
    unfolding lambda_handler_def by (intro log_free) simp
  ultimately show ?thesis by simp
qed

subsection \<open>Claim C9: at most one action, and the fallback only after a failure\<close>

text \<open>
  C9. For every inbound event, at most one registered request handler's action is
  executed during dispatch, and it is the action of the selected handler. The action of
  the exception handler is executed only when no handler's predicate matched or the
  action of the selected handler raised; in a turn where the selected handler's action
  returned normally it is not executed, and the turn ends with the response returned.
\<close>

theorem at_most_one_action_per_turn:
  fixes w :: "'doc World"
  shows "length (executed (fst (lambda_handler w event))) \<le> 1 \<and>
         set (executed (fst (lambda_handler w event))) \<subseteq>
           set_option (find_handler (request_handlers sb)
             \<lparr>request_envelope = event,
              response_builder = ResponseFactory_init :: 'doc ResponseFactory\<rparr>) \<and>
         (fallback_executed (fst (lambda_handler w event)) \<longrightarrow>
            find_handler (request_handlers sb)
              \<lparr>request_envelope = event,
               response_builder = ResponseFactory_init :: 'doc ResponseFactory\<rparr> = None \<or>
            (\<exists>h e. find_handler (request_handlers sb)
                     \<lparr>request_envelope = event,
                      response_builder = ResponseFactory_init :: 'doc ResponseFactory\<rparr>
                   = Some h \<and>
                   handle (files w) h
                     \<lparr>request_envelope = event, response_builder = ResponseFactory_init\<rparr>
                   = Inl e)) \<and>
         (\<forall>h r. find_handler (request_handlers sb)
                  \<lparr>request_envelope = event,
                   response_builder = ResponseFactory_init :: 'doc ResponseFactory\<rparr>
                = Some h \<and>
                handle (files w) h
                  \<lparr>request_envelope = event, response_builder = ResponseFactory_init\<rparr>
                = Inr r \<longrightarrow>
                \<not> fallback_executed (fst (lambda_handler w event)) \<and>
                executed (fst (lambda_handler w event)) = [h] \<and>
                outcome (fst (lambda_handler w event)) = Responded r)"
proof -
  let ?hi = "\<lparr>request_envelope = event,
              response_builder = ResponseFactory_init :: 'doc ResponseFactory\<rparr>"
  show ?thesis
  proof (cases "find_handler (request_handlers sb) ?hi")
    case None
    from lambda_handler_unroutable [OF None, where w = w] None
    show ?thesis by simp
  next
    case (Some h)
    show ?thesis
    proof (cases "handle (files w) h ?hi")
      case (Inl e)
      from lambda_handler_recovers [OF Some Inl] Some Inl
      show ?thesis by simp
    next
      case (Inr r)
      from lambda_handler_returns [OF Some Inr] Some Inr
      show ?thesis by simp
    qed
  qed
qed

theorem at_most_one_action_per_turn_witness:
  "\<not> fallback_executed (fst (lambda_handler
      (\<lparr>files = (\<lambda>p. Inl OSError), logger = []\<rparr> :: string World)
      \<lparr>request = LaunchRequest,
       supported_interfaces = \<lparr>alexa_presentation_apl = None\<rparr>,
       context_alexa_presentation_apl = None\<rparr>)) \<and>
   executed (fst (lambda_handler
      (\<lparr>files = (\<lambda>p. Inl OSError), logger = []\<rparr> :: string World)
      \<lparr>request = LaunchRequest,
       supported_interfaces = \<lparr>alexa_presentation_apl = None\<rparr>,
       context_alexa_presentation_apl = None\<rparr>)) = [LaunchRequestHandler] \<and>
   fallback_executed (fst (lambda_handler
      (\<lparr>files = (\<lambda>p. Inl OSError), logger = []\<rparr> :: string World)
      \<lparr>request = IntentRequest ''AMAZON.StartOverIntent'',
       supported_interfaces = \<lparr>alexa_presentation_apl = None\<rparr>,
       context_alexa_presentation_apl = None\<rparr>)) \<and>
   (\<exists>h e. find_handler (request_handlers sb)
            \<lparr>request_envelope =
               \<lparr>request = IntentRequest ''AMAZON.StartOverIntent'',
                supported_interfaces = \<lparr>alexa_presentation_apl = None\<rparr>,
                context_alexa_presentation_apl = None\<rparr>,
             response_builder = ResponseFactory_init :: string ResponseFactory\<rparr> = Some h \<and>
          handle (\<lambda>p. Inl OSError) h
            \<lparr>request_envelope =
               \<lparr>request = IntentRequest ''AMAZON.StartOverIntent'',
                supported_interfaces = \<lparr>alexa_presentation_apl = None\<rparr>,
                context_alexa_presentation_apl = None\<rparr>,
             response_builder = ResponseFactory_init :: string ResponseFactory\<rparr> = Inl e)"
proof -
  let ?w = "\<lparr>files = (\<lambda>p. Inl OSError), logger = []\<rparr> :: string World"
  let ?launch = "\<lparr>request = LaunchRequest,
       supported_interfaces = \<lparr>alexa_presentation_apl = None\<rparr>,
       context_alexa_presentation_apl = None\<rparr>"
  let ?reset = "\<lparr>request = IntentRequest ''AMAZON.StartOverIntent'',
       supported_interfaces = \<lparr>alexa_presentation_apl = None\<rparr>,
       context_alexa_presentation_apl = None\<rparr>"
  let ?hi = "\<lparr>request_envelope = ?launch,
              response_builder = ResponseFactory_init :: string ResponseFactory\<rparr>"
  let ?hi' = "\<lparr>request_envelope = ?reset,
               response_builder = ResponseFactory_init :: string ResponseFactory\<rparr>"
  have req: "request (request_envelope ?hi) = LaunchRequest" by simp
  have sel: "find_handler (request_handlers sb) ?hi = Some LaunchRequestHandler"
    by (rule find_handler_LaunchRequest [OF req])
  have act: "\<exists>r. handle (files ?w) LaunchRequestHandler ?hi = Inr r"
    by (simp add: LaunchRequestHandler_handle_def Let_def)
  have returned:
    "\<not> fallback_executed (fst (lambda_handler ?w ?launch)) \<and>
     executed (fst (lambda_handler ?w ?launch)) = [LaunchRequestHandler]"
    using at_most_one_action_per_turn [where w = ?w and event = ?launch] sel act
    by auto
  have req': "request (request_envelope ?hi') = IntentRequest ''AMAZON.StartOverIntent''"
    by simp
  have sel': "find_handler (request_handlers sb) ?hi' = Some StartOverIntentHandler"
    using find_handler_IntentRequest [OF req'] by simp
  have "StartOverIntentHandler_handle ?hi' = Inl TypeError"
    by (rule StartOverIntentHandler_handle_no_screen) simp
  then have act': "handle (files ?w) StartOverIntentHandler ?hi' = Inl TypeError"
    by simp
  have ran: "fallback_executed (fst (lambda_handler ?w ?reset))"
    using lambda_handler_recovers [OF sel' act'] by simp
  have raised:
    "\<exists>h e. find_handler (request_handlers sb) ?hi' = Some h \<and>
           handle (files ?w) h ?hi' = Inl e"
    using at_most_one_action_per_turn [where w = ?w and event = ?reset] ran sel'
    by auto
  show ?thesis
    using returned ran raised by simp
qed

subsection \<open>Claim C10: a user event from any other component matches no handler\<close>

text \<open>
  C10. For every APL user event whose source id is not "fadeHelloTextButton" (or is
  absent), the predicate of no registered handler matches:
  \<open>HelloWorldButtonEventHandler\<close> returns false for that source id, and every other
  predicate tests for a launch request, an intent request or a session-ended request.
  The event is unroutable: no handler is selected, no handler's action is executed and
  the turn falls to the case that the specification leaves open.
\<close>

theorem other_UserEvent_unroutable:
  fixes w :: "'doc World"
  assumes "request event = UserEvent s"
    and "s ''id'' \<noteq> Some ''fadeHelloTextButton''"
  shows "(\<forall>h \<in> set (request_handlers sb).
            \<not> can_handle h
                \<lparr>request_envelope = event,
                 response_builder = ResponseFactory_init :: 'doc ResponseFactory\<rparr>) \<and>
         \<not> HelloWorldButtonEventHandler_can_handle
             \<lparr>request_envelope = event,
              response_builder = ResponseFactory_init :: 'doc ResponseFactory\<rparr> \<and>
         find_handler (request_handlers sb)
           \<lparr>request_envelope = event,
            response_builder = ResponseFactory_init :: 'doc ResponseFactory\<rparr> = None \<and>
         outcome (fst (lambda_handler w event)) = Unroutable \<and>
         executed (fst (lambda_handler w event)) = []"
proof -
  let ?hi = "\<lparr>request_envelope = event,
              response_builder = ResponseFactory_init :: 'doc ResponseFactory\<rparr>"
  have req: "request (request_envelope ?hi) = UserEvent s"
    using assms(1) by simp
  have none: "\<forall>h \<in> set (request_handlers sb). \<not> can_handle h ?hi"
    using assms by (simp add: sb_request_handlers predicate_defs)
  have button: "\<not> HelloWorldButtonEventHandler_can_handle ?hi"
    using assms by (simp add: predicate_defs)
  have sel: "find_handler (request_handlers sb) ?hi = None"
    using find_handler_UserEvent [OF req] assms(2) by simp
  show ?thesis
    using none button sel lambda_handler_unroutable [OF sel] by simp
qed

theorem other_UserEvent_unroutable_witness:
  "outcome (fst (lambda_handler
      (\<lparr>files = (\<lambda>p. Inl OSError), logger = []\<rparr> :: string World)
      \<lparr>request = UserEvent [''id'' \<mapsto> ''someOtherButton''],
       supported_interfaces = \<lparr>alexa_presentation_apl = Some AlexaPresentationAplInterface\<rparr>,
       context_alexa_presentation_apl = None\<rparr>)) = Unroutable \<and>
   outcome (fst (lambda_handler
      (\<lparr>files = (\<lambda>p. Inl OSError), logger = []\<rparr> :: string World)
      \<lparr>request = UserEvent Map.empty,
       supported_interfaces = \<lparr>alexa_presentation_apl = None\<rparr>,
       context_alexa_presentation_apl = None\<rparr>)) = Unroutable"
proof -
  let ?w = "\<lparr>files = (\<lambda>p. Inl OSError), logger = []\<rparr> :: string World"
  let ?s = "[''id'' \<mapsto> ''someOtherButton'']"
  let ?other = "\<lparr>request = UserEvent ?s,
       supported_interfaces = \<lparr>alexa_presentation_apl = Some AlexaPresentationAplInterface\<rparr>,
       context_alexa_presentation_apl = None\<rparr>"
  let ?no_id = "\<lparr>request = UserEvent Map.empty,
       supported_interfaces = \<lparr>alexa_presentation_apl = None\<rparr>,
       context_alexa_presentation_apl = None\<rparr>"
  have h1: "request ?other = UserEvent ?s" by simp
  have h2: "?s ''id'' \<noteq> Some ''fadeHelloTextButton''" by simp
  have h3: "request ?no_id = UserEvent Map.empty" by simp
  have h4: "(Map.empty :: string \<rightharpoonup> string) ''id'' \<noteq> Some ''fadeHelloTextButton''" by simp
  from other_UserEvent_unroutable [OF h1 h2, where w = ?w]
       other_UserEvent_unroutable [OF h3 h4, where w = ?w]
  show ?thesis by simp
qed

end
